theory Spec2Isabelle
  imports Complex_Main "HOL-Library.Word"
begin

section \<open>Go values\<close>

text \<open>
  A Go slice is either \<open>nil\<close> or a (possibly empty) sequence of elements; the two are
  different values (\<open>encoding/json\<close> prints the first as \<open>null\<close> and the second as
  \<open>[]\<close>), and both have length zero when they hold nothing. \<open>range\<close> over a nil slice
  runs zero iterations.
\<close>

datatype 'a slice = nil | Slice "'a list"

fun elems :: "'a slice \<Rightarrow> 'a list" where
  "elems nil = []"
| "elems (Slice xs) = xs"

definition len :: "'a slice \<Rightarrow> nat" where
  "len s = length (elems s)"

text \<open>
  \<open>make([]T, 0, n)\<close> is a non-nil slice of length zero; the capacity \<open>n\<close> only
  reserves room and is not observable in the value.
\<close>

definition make_slice :: "nat \<Rightarrow> nat \<Rightarrow> 'a slice" where
  "make_slice l c = Slice []"

text \<open>
  \<open>append(s, x...)\<close>: appending nothing to a nil slice gives nil, everything else gives
  a non-nil slice holding the old elements followed by the new ones.
\<close>

fun append_slice :: "'a slice \<Rightarrow> 'a list \<Rightarrow> 'a slice" where
  "append_slice nil [] = nil"
| "append_slice nil (x # xs) = Slice (x # xs)"
| "append_slice (Slice ys) xs = Slice (ys @ xs)"

text \<open>
  A floating-point value (\<open>float32\<close> or \<open>float64\<close>) is a NaN, a signed infinity, or a
  finite number given by its sign (true when negative), a mantissa (a non-negative
  integer) and a binary exponent: \<open>Finite neg m e\<close> stands for \<open>m * 2 ^ e\<close> with that sign.
  The sign stands apart, so that negative zero is a value of its own.
\<close>

datatype float = Finite bool int int | Infinity bool | NaN

type_synonym float32 = float
type_synonym float64 = float

definition pow2 :: "int \<Rightarrow> rat" where
  "pow2 e = (if e \<ge> 0 then 2 ^ nat e else 1 / 2 ^ nat (- e))"

text \<open>The number a finite value stands for.\<close>

definition finite_value :: "bool \<Rightarrow> int \<Rightarrow> int \<Rightarrow> rat" where
  "finite_value neg m e = (if neg then - (of_int m * pow2 e) else of_int m * pow2 e)"

fun float_value :: "float \<Rightarrow> rat option" where
  "float_value (Finite neg m e) = Some (finite_value neg m e)"
| "float_value (Infinity neg) = None"
| "float_value NaN = None"

text \<open>
  The comparisons \<open><\<close> and \<open><=\<close> of Go on floating-point operands (IEEE 754): every
  comparison with a NaN is false, the infinities lie below and above every finite value,
  and the two zeros are equal.
\<close>

fun float_less :: "float \<Rightarrow> float \<Rightarrow> bool" where
  "float_less NaN y = False"
| "float_less x NaN = False"
| "float_less (Finite n m e) (Finite n' m' e') = (finite_value n m e < finite_value n' m' e')"
| "float_less (Finite n m e) (Infinity n') = (\<not> n')"
| "float_less (Infinity n) (Finite n' m' e') = n"
| "float_less (Infinity n) (Infinity n') = (n \<and> \<not> n')"

fun float_less_eq :: "float \<Rightarrow> float \<Rightarrow> bool" where
  "float_less_eq NaN y = False"
| "float_less_eq x NaN = False"
| "float_less_eq (Finite n m e) (Finite n' m' e') = (finite_value n m e \<le> finite_value n' m' e')"
| "float_less_eq (Finite n m e) (Infinity n') = (\<not> n')"
| "float_less_eq (Infinity n) (Finite n' m' e') = n"
| "float_less_eq (Infinity n) (Infinity n') = (n \<or> \<not> n')"

section \<open>The data model of \<open>weatherbanno.go\<close>\<close>

text \<open>The element type of \<open>Weather\<close>, an anonymous struct with the one field \<open>Main\<close>.\<close>

record WeatherCondition =
  Main :: string

record OpenWeatherOneCallCurrentConditions =
  DT :: "64 word"
  FeelsLike :: float32
  Weather :: "WeatherCondition slice"

record OpenWeatherOneCallAlert =
  SenderName :: string
  Event :: string
  Description :: string

record OpenWeatherOneCallResponse =
  Current :: OpenWeatherOneCallCurrentConditions
  Alerts :: "OpenWeatherOneCallAlert slice"

record MyWeatherResponse =
  Timestamp :: string
  CurrentTemperatureFeel :: string
  CurrentConditions :: "string slice"
  CurrentAlerts :: "OpenWeatherOneCallAlert slice"

section \<open>The three transformations\<close>

text \<open>
  The untyped constants \<open>277.0\<close> and \<open>297\<close> are converted to \<open>float32\<close>, where both
  are exact: mantissa \<open>277\<close> (or \<open>297\<close>) and exponent zero.
\<close>

definition GetCurrentTemperatureFeel :: "OpenWeatherOneCallResponse \<Rightarrow> string" where
  "GetCurrentTemperatureFeel respParsed =
     (if float_less (FeelsLike (Current respParsed)) (Finite False 277 0) then ''cold''
      else if float_less_eq (FeelsLike (Current respParsed)) (Finite False 297 0) then ''moderate''
      else ''hot'')"

text \<open>
  The loop of \<open>GetCurrentConditions\<close>: \<open>results\<close> starts as \<open>make([]string, 0, len(...))\<close>
  and each iteration appends the \<open>Main\<close> of the next entry.
\<close>

fun GetCurrentConditions_loop :: "string slice \<Rightarrow> WeatherCondition list \<Rightarrow> string slice" where
  "GetCurrentConditions_loop results [] = results"
| "GetCurrentConditions_loop results (weatherCondition # rest) =
     GetCurrentConditions_loop (append_slice results [Main weatherCondition]) rest"

definition GetCurrentConditions :: "OpenWeatherOneCallResponse \<Rightarrow> string slice" where
  "GetCurrentConditions respParsed =
     GetCurrentConditions_loop
       (make_slice 0 (len (Weather (Current respParsed))))
       (elems (Weather (Current respParsed)))"

definition GetCurrentAlerts :: "OpenWeatherOneCallResponse \<Rightarrow> OpenWeatherOneCallAlert slice" where
  "GetCurrentAlerts respParsed =
     append_slice (make_slice 0 (len (Alerts respParsed))) (elems (Alerts respParsed))"

section \<open>Package \<open>time\<close>: \<open>Unix\<close> and \<open>Format(RFC3339)\<close>\<close>

text \<open>
  The handler formats \<open>time.Unix(respParsed.Current.DT, 0)\<close> with the layout
  \<open>time.RFC3339\<close>. \<open>time.Unix\<close> returns a \<open>Time\<close> in the location \<open>time.Local\<close>, the time
  zone the process runs in (taken from its environment when the package starts), and
  \<open>Format\<close> prints the civil date and clock of the \<open>Time\<close> in the location it carries.
  The definitions below transcribe the standard library (\<open>Time.abs\<close>, \<open>absDate\<close>,
  \<open>absClock\<close>, \<open>appendInt\<close> and the RFC 3339 formatter with second precision).

  A location gives, for a Unix time, the offset in seconds east of UTC in force then.
\<close>

type_synonym Location = "int \<Rightarrow> int"

definition UTC :: Location where
  "UTC = (\<lambda>sec. 0)"

record Time =
  unixSec :: "64 word"
  loc :: Location

definition Unix :: "Location \<Rightarrow> 64 word \<Rightarrow> Time" where
  "Unix Local sec = \<lparr>unixSec = sec, loc = Local\<rparr>"

definition zone_offset :: "Time \<Rightarrow> int" where
  "zone_offset t = loc t (sint (unixSec t))"

text \<open>
  \<open>unixToInternal + internalToAbsolute\<close>: the seconds from the absolute zero of the
  package (1 January of the year \<open>-292277022399\<close>) to 1 January 1970.
\<close>

definition unixToAbsolute :: "64 word" where
  "unixToAbsolute = 9223372028715321600"

definition absoluteZeroYear :: int where
  "absoluteZeroYear = - 292277022399"

text \<open>\<open>Time.abs\<close>: the seconds since the absolute zero, as a \<open>uint64\<close>; the sums wrap.\<close>

definition abs_sec :: "Time \<Rightarrow> int" where
  "abs_sec t = uint (unixSec t + word_of_int (zone_offset t) + unixToAbsolute)"

definition isLeap :: "int \<Rightarrow> bool" where
  "isLeap year = (year mod 4 = 0 \<and> (year mod 100 \<noteq> 0 \<or> year mod 400 = 0))"

definition daysBefore :: "int list" where
  "daysBefore = [0, 31, 59, 90, 120, 151, 181, 212, 243, 273, 304, 334, 365]"

text \<open>\<open>absDate\<close>: year, month (January is 1) and day of the month of an absolute time.\<close>

definition absDate :: "int \<Rightarrow> int \<times> int \<times> int" where
  "absDate a =
     (let d = a div 86400;
          n = d div 146097;
          y = 400 * n;
          d = d - 146097 * n;
          n = d div 36524;
          n = n - n div 4;
          y = y + 100 * n;
          d = d - 36524 * n;
          n = d div 1461;
          y = y + 4 * n;
          d = d - 1461 * n;
          n = d div 365;
          n = n - n div 4;
          y = y + n;
          d = d - 365 * n;
          year = y + absoluteZeroYear;
          yday = d
      in if isLeap year \<and> yday = 31 + 29 - 1 then (year, 2, 29)
         else
           let day = (if isLeap year \<and> yday > 31 + 29 - 1 then yday - 1 else yday);
               month = day div 31;
               e = daysBefore ! nat (month + 1);
               b = (if day \<ge> e then e else daysBefore ! nat month);
               month = (if day \<ge> e then month + 1 else month)
           in (year, month + 1, day - b + 1))"

text \<open>\<open>absClock\<close>: hour, minute and second within the day.\<close>

definition absClock :: "int \<Rightarrow> int \<times> int \<times> int" where
  "absClock a =
     (let sec = a mod 86400;
          hour = sec div 3600;
          sec = sec - hour * 3600;
          minute = sec div 60;
          sec = sec - minute * 60
      in (hour, minute, sec))"

text \<open>The decimal digits of a non-negative integer.\<close>

function decimal :: "int \<Rightarrow> string" where
  "decimal u = (if u < 10 then [''0123456789'' ! nat u]
                else decimal (u div 10) @ [''0123456789'' ! nat (u mod 10)])"
  by pat_completeness auto
termination
  by (relation "measure nat") auto

text \<open>\<open>appendInt\<close>: the decimal form of \<open>x\<close>, zero-padded to \<open>width\<close>, after a minus sign
  when \<open>x\<close> is negative.\<close>

definition appendInt :: "int \<Rightarrow> nat \<Rightarrow> string" where
  "appendInt x width =
     (let u = \<bar>x\<bar>; ds = decimal u
      in (if x < 0 then ''-'' else []) @ replicate (width - length ds) (CHR ''0'') @ ds)"

text \<open>
  The zone suffix of RFC 3339: \<open>Z\<close> at offset zero, else the sign and the offset in hours
  and minutes. Go's integer division truncates toward zero, so the minutes are taken
  from the magnitude.
\<close>

definition appendZone :: "int \<Rightarrow> string" where
  "appendZone offset =
     (if offset = 0 then ''Z''
      else
        let zone = (if offset < 0 then - ((- offset) div 60) else offset div 60)
        in (if zone < 0 then ''-'' else ''+'')
           @ appendInt (\<bar>zone\<bar> div 60) 2 @ '':'' @ appendInt (\<bar>zone\<bar> mod 60) 2)"

definition Format_RFC3339 :: "Time \<Rightarrow> string" where
  "Format_RFC3339 t =
     (let a = abs_sec t;
          (year, month, day) = absDate a;
          (hour, minute, sec) = absClock a
      in appendInt year 4 @ ''-'' @ appendInt month 2 @ ''-'' @ appendInt day 2
         @ ''T''
         @ appendInt hour 2 @ '':'' @ appendInt minute 2 @ '':'' @ appendInt sec 2
         @ appendZone (zone_offset t))"

section \<open>Struct tags and the JSON names of fields\<close>

text \<open>
  A struct field as \<open>encoding/json\<close> sees it through reflection: its Go name and the raw
  text of its tag (what stands between the back quotes in the source).
\<close>

record StructField =
  Name :: string
  Tag :: string

text \<open>
  \<open>reflect.StructTag.Lookup\<close>. A tag is a sequence of \<open>key:"value"\<close> pairs separated by
  spaces. The scan stops, and finds nothing, as soon as the text departs from that
  shape; in particular when a value's closing quote is missing.

  \<open>scan_quoted\<close> reads a value after its opening quote up to the closing one (a backslash
  protects the next character) and returns the text between the quotes and what follows.
\<close>

fun scan_quoted :: "string \<Rightarrow> (string \<times> string) option" where
  "scan_quoted [] = None"
| "scan_quoted (c # cs) =
     (if c = CHR 0x22 then Some ([], cs)
      else if c = CHR 0x5C then
        (case cs of
           [] \<Rightarrow> None
         | d # ds \<Rightarrow>
             (case scan_quoted ds of
                None \<Rightarrow> None
              | Some (v, rest) \<Rightarrow> Some (c # d # v, rest)))
      else
        (case scan_quoted cs of
           None \<Rightarrow> None
         | Some (v, rest) \<Rightarrow> Some (c # v, rest)))"

definition key_char :: "char \<Rightarrow> bool" where
  "key_char c = (of_char c > (32::nat) \<and> c \<noteq> CHR '':'' \<and> c \<noteq> CHR 0x22 \<and> c \<noteq> CHR 0x7F)"

text \<open>
  \<open>strconv.Unquote\<close> on a double-quoted value, given here the text between the quotes. A
  value without a backslash or a newline stands for itself. No tag of this program holds
  an escape sequence; the transcription does not interpret them and reports such a value
  as an error, as \<open>Unquote\<close> does for a malformed one.
\<close>

definition Unquote :: "string \<Rightarrow> string option" where
  "Unquote v = (if CHR 0x5C \<in> set v \<or> CHR 0x0A \<in> set v then None else Some v)"

lemma scan_quoted_shorter: "scan_quoted s = Some (v, rest) \<Longrightarrow> length rest < length s"
proof (induction s arbitrary: v rest rule: scan_quoted.induct)
  case 1
  then show ?case by simp
next
  case (2 c cs)
  show ?case
  proof (cases "c = CHR 0x22")
    case True
    with "2.prems" show ?thesis by simp
  next
    case notq: False
    show ?thesis
    proof (cases "c = CHR 0x5C")
      case True
      with notq "2.prems" obtain d ds v' where cs: "cs = d # ds"
        and sq: "scan_quoted ds = Some (v', rest)"
        by (auto split: list.splits option.splits)
      from "2.IH"(1)[OF notq True cs sq] cs show ?thesis by simp
    next
      case False
      with notq "2.prems" obtain v' where sq: "scan_quoted cs = Some (v', rest)"
        by (auto split: option.splits)
      from "2.IH"(2)[OF notq False sq] show ?thesis by simp
    qed
  qed
qed

function Lookup :: "string \<Rightarrow> string \<Rightarrow> string option" where
  "Lookup tag key =
     (case dropWhile (\<lambda>c. c = CHR '' '') tag of
        [] \<Rightarrow> None
      | t # ts \<Rightarrow>
          (case dropWhile key_char (t # ts) of
             c1 # c2 # after \<Rightarrow>
               if takeWhile key_char (t # ts) = [] \<or> c1 \<noteq> CHR '':'' \<or> c2 \<noteq> CHR 0x22 then None
               else
                 (case scan_quoted after of
                    None \<Rightarrow> None
                  | Some (qvalue, rest) \<Rightarrow>
                      if key = takeWhile key_char (t # ts) then Unquote qvalue
                      else Lookup rest key)
           | _ \<Rightarrow> None))"
  by pat_completeness auto
termination
proof (relation "measure (\<lambda>(tag, key). length tag)", goal_cases)
  case 1
  show ?case by simp
next
  case (2 tag key t ts c1 cs c2 after sq qvalue rest)
  from 2 have "scan_quoted after = Some (qvalue, rest)" by simp
  then have l1: "length rest < length after"
    by (rule scan_quoted_shorter)
  have "length (dropWhile key_char (t # ts)) \<le> length (t # ts)"
    by (rule length_dropWhile_le)
  with 2 have l2: "length after < length (t # ts)" by simp
  have "length (dropWhile (\<lambda>c. c = CHR '' '') tag) \<le> length tag"
    by (rule length_dropWhile_le)
  with 2 have "length (t # ts) \<le> length tag" by simp
  with l1 l2 show ?case by simp
qed

text \<open>\<open>StructTag.Get\<close>: the value, or the empty string when \<open>Lookup\<close> finds none.\<close>

definition Get :: "string \<Rightarrow> string \<Rightarrow> string" where
  "Get tag key = (case Lookup tag key of None \<Rightarrow> [] | Some v \<Rightarrow> v)"

text \<open>
  The name \<open>encoding/json\<close> gives a field (\<open>typeFields\<close>): a field that is not exported or
  whose tag is \<open>-\<close> is left out; otherwise the name is the part of the \<open>json\<close> tag before
  the first comma when that part is a valid name, and the Go name of the field when
  there is no such part. \<open>isValidTag\<close> accepts letters, digits and the punctuation listed
  (here for ASCII text, which is all the tags of this program use).
\<close>

definition is_upper :: "char \<Rightarrow> bool" where
  "is_upper c = ((65::nat) \<le> of_char c \<and> of_char c \<le> (90::nat))"

definition is_lower :: "char \<Rightarrow> bool" where
  "is_lower c = ((97::nat) \<le> of_char c \<and> of_char c \<le> (122::nat))"

definition is_digit :: "char \<Rightarrow> bool" where
  "is_digit c = ((48::nat) \<le> of_char c \<and> of_char c \<le> (57::nat))"

definition isValidTag :: "string \<Rightarrow> bool" where
  \<open>isValidTag s =
     (s \<noteq> [] \<and>
      list_all (\<lambda>c. c \<in> set ''!#$%&()*+-./:;<=>?@[]^_{|}~ ''
                     \<or> is_upper c \<or> is_lower c \<or> is_digit c) s)\<close>

definition IsExported :: "StructField \<Rightarrow> bool" where
  "IsExported f = (case Name f of [] \<Rightarrow> False | c # cs \<Rightarrow> is_upper c)"

definition json_name :: "StructField \<Rightarrow> string option" where
  "json_name f =
     (if \<not> IsExported f then None
      else if Get (Tag f) ''json'' = ''-'' then None
      else if isValidTag (takeWhile (\<lambda>c. c \<noteq> CHR '','') (Get (Tag f) ''json''))
        then Some (takeWhile (\<lambda>c. c \<noteq> CHR '','') (Get (Tag f) ''json''))
      else Some (Name f))"

text \<open>The fields of the structs of the program, with their tags as written in the source.\<close>

definition WeatherCondition_fields :: "StructField list" where
  \<open>WeatherCondition_fields = [\<lparr>Name = ''Main'', Tag = ''json:"main"''\<rparr>]\<close>

definition OpenWeatherOneCallCurrentConditions_fields :: "StructField list" where
  \<open>OpenWeatherOneCallCurrentConditions_fields =
     [\<lparr>Name = ''DT'', Tag = ''json:"dt"''\<rparr>,
      \<lparr>Name = ''FeelsLike'', Tag = ''json:"feels_like"''\<rparr>,
      \<lparr>Name = ''Weather'', Tag = ''json:"weather"''\<rparr>]\<close>

definition OpenWeatherOneCallAlert_fields :: "StructField list" where
  \<open>OpenWeatherOneCallAlert_fields =
     [\<lparr>Name = ''SenderName'', Tag = ''json:"sender_name"''\<rparr>,
      \<lparr>Name = ''Event'', Tag = ''json:"event"''\<rparr>,
      \<lparr>Name = ''Description'', Tag = ''json:"description"''\<rparr>]\<close>

definition OpenWeatherOneCallResponse_fields :: "StructField list" where
  \<open>OpenWeatherOneCallResponse_fields =
     [\<lparr>Name = ''Current'', Tag = ''json:"current"''\<rparr>,
      \<lparr>Name = ''Alerts'', Tag = ''json:"alerts"''\<rparr>]\<close>

definition MyWeatherResponse_fields :: "StructField list" where
  \<open>MyWeatherResponse_fields =
     [\<lparr>Name = ''Timestamp'', Tag = []\<rparr>,
      \<lparr>Name = ''CurrentTemperatureFeel'', Tag = ''json:"current_temperature_feel''\<rparr>,
      \<lparr>Name = ''CurrentConditions'', Tag = ''json:"current_conditions"''\<rparr>,
      \<lparr>Name = ''CurrentAlerts'', Tag = ''json:"alerts"''\<rparr>]\<close>

section \<open>Package \<open>strconv\<close>: \<open>ParseInt\<close> and \<open>ParseFloat\<close>\<close>

datatype error =
    ErrSyntax
  | ErrRange
  | SyntaxError
  | UnmarshalTypeError string
  | OtherError string

definition digit_value :: "char \<Rightarrow> int" where
  "digit_value c = int (of_char c) - 48"

definition digits_value :: "string \<Rightarrow> int" where
  "digits_value ds = foldl (\<lambda>a c. 10 * a + digit_value c) 0 ds"

text \<open>
  \<open>strconv.ParseInt(s, 10, 64)\<close>: an optional sign and at least one decimal digit,
  nothing else; a value outside the range of \<open>int64\<close> is a range error.
\<close>

definition ParseInt :: "string \<Rightarrow> error + int" where
  "ParseInt s =
     (case s of
        [] \<Rightarrow> Inl ErrSyntax
      | c # cs \<Rightarrow>
          (case (if c = CHR ''+'' \<or> c = CHR ''-'' then cs else s) of
             [] \<Rightarrow> Inl ErrSyntax
           | d # ds \<Rightarrow>
               if \<not> list_all is_digit (d # ds) then Inl ErrSyntax
               else if c = CHR ''-'' then
                 (if digits_value (d # ds) > 2 ^ 63 then Inl ErrRange
                  else Inr (- digits_value (d # ds)))
               else
                 (if digits_value (d # ds) \<ge> 2 ^ 63 then Inl ErrRange
                  else Inr (digits_value (d # ds)))))"

text \<open>
  Rounding to binary floating point. \<open>bit_length n\<close> is the number of binary digits of a
  positive integer, \<open>floor_log2 n d\<close> the integer part of the binary logarithm of the
  positive fraction \<open>n / d\<close>, and \<open>round_half_even_div a b\<close> the integer nearest to \<open>a / b\<close>,
  the even one of two that are equally near.
\<close>

function bit_length :: "int \<Rightarrow> int" where
  "bit_length n = (if n \<le> 0 then 0 else 1 + bit_length (n div 2))"
  by pat_completeness auto
termination
  by (relation "measure nat") auto

definition floor_log2 :: "int \<Rightarrow> int \<Rightarrow> int" where
  "floor_log2 n d =
     (if (if bit_length n \<ge> bit_length d
          then d * 2 ^ nat (bit_length n - bit_length d) \<le> n
          else d \<le> n * 2 ^ nat (bit_length d - bit_length n))
      then bit_length n - bit_length d
      else bit_length n - bit_length d - 1)"

definition round_half_even_div :: "int \<Rightarrow> int \<Rightarrow> int" where
  "round_half_even_div a b =
     (if 2 * (a mod b) < b then a div b
      else if 2 * (a mod b) > b then a div b + 1
      else if even (a div b) then a div b
      else a div b + 1)"

text \<open>
  The nearest number with \<open>p\<close> significant binary digits and an exponent not below
  \<open>emin\<close> (below it the spacing stays that of the subnormal numbers) to the fraction
  \<open>n / d\<close>, as a mantissa and a binary exponent. The exponent is not bounded above here:
  the caller compares the result with the largest finite value of the format.
\<close>

definition round_binary :: "nat \<Rightarrow> int \<Rightarrow> int \<Rightarrow> int \<Rightarrow> int \<times> int" where
  "round_binary p emin n d =
     (if n = 0 then (0, 0)
      else if max (floor_log2 n d) emin - int p + 1 \<ge> 0 then
        (round_half_even_div n (d * 2 ^ nat (max (floor_log2 n d) emin - int p + 1)),
         max (floor_log2 n d) emin - int p + 1)
      else
        (round_half_even_div (n * 2 ^ nat (- (max (floor_log2 n d) emin - int p + 1))) d,
         max (floor_log2 n d) emin - int p + 1))"

text \<open>
  The result of converting the fraction \<open>n / d\<close> with the sign \<open>neg\<close>: \<open>float32\<close> has 24
  significant bits, least normal exponent \<open>-126\<close> and finite values below \<open>2 ^ 128\<close>;
  \<open>float64\<close> (any other \<open>bitSize\<close>) has 53, \<open>-1022\<close> and \<open>2 ^ 1024\<close>. A value that rounds
  beyond the finite ones is a range error; one that rounds to zero is not an error.
\<close>

definition float_of_fraction :: "nat \<Rightarrow> bool \<Rightarrow> int \<Rightarrow> int \<Rightarrow> error + float" where
  "float_of_fraction bitSize neg n d =
     (if bitSize = 32 then
        (if snd (round_binary 24 (- 126) n d) \<ge> 0 \<and>
            fst (round_binary 24 (- 126) n d) * 2 ^ nat (snd (round_binary 24 (- 126) n d)) \<ge> 2 ^ 128
         then Inl ErrRange
         else Inr (Finite neg (fst (round_binary 24 (- 126) n d)) (snd (round_binary 24 (- 126) n d))))
      else
        (if snd (round_binary 53 (- 1022) n d) \<ge> 0 \<and>
            fst (round_binary 53 (- 1022) n d) * 2 ^ nat (snd (round_binary 53 (- 1022) n d)) \<ge> 2 ^ 1024
         then Inl ErrRange
         else Inr (Finite neg (fst (round_binary 53 (- 1022) n d)) (snd (round_binary 53 (- 1022) n d)))))"

text \<open>
  The parts of a number in plain decimal notation, as \<open>readFloat\<close> scans them: the sign,
  the digits before the point, the digits after it, and what is left when the scan
  stops (at a second point or a second sign).
\<close>

definition negative :: "string \<Rightarrow> bool" where
  "negative s = (case s of [] \<Rightarrow> False | c # cs \<Rightarrow> c = CHR ''-'')"

definition unsigned :: "string \<Rightarrow> string" where
  "unsigned s = (case s of [] \<Rightarrow> [] | c # cs \<Rightarrow> if c = CHR ''+'' \<or> c = CHR ''-'' then cs else s)"

definition int_digits :: "string \<Rightarrow> string" where
  "int_digits s = takeWhile is_digit (unsigned s)"

definition frac_digits :: "string \<Rightarrow> string" where
  "frac_digits s =
     (case dropWhile is_digit (unsigned s) of
        [] \<Rightarrow> []
      | c # cs \<Rightarrow> if c = CHR ''.'' then takeWhile is_digit cs else [])"

definition trailing :: "string \<Rightarrow> string" where
  "trailing s =
     (case dropWhile is_digit (unsigned s) of
        [] \<Rightarrow> []
      | c # cs \<Rightarrow> if c = CHR ''.'' then dropWhile is_digit cs else c # cs)"

definition plain_decimal_char :: "char \<Rightarrow> bool" where
  "plain_decimal_char c = (is_digit c \<or> c = CHR ''+'' \<or> c = CHR ''-'' \<or> c = CHR ''.'')"

text \<open>
  \<open>strconv.ParseFloat(s, bitSize)\<close>. A text made of digits, signs and points only is
  handled here as the library handles it: it needs at least one digit, before or after
  the point, and nothing may follow the number; the value is the correctly rounded one.
  Every other text (an exponent, a hexadecimal number, underscores, an infinity, a NaN,
  or anything that is not a number) is left to the parameter \<open>other\<close>, which stands for
  the library on those texts.
\<close>

definition ParseFloat :: "(string \<Rightarrow> nat \<Rightarrow> error + float) \<Rightarrow> string \<Rightarrow> nat \<Rightarrow> error + float" where
  "ParseFloat other s bitSize =
     (if \<not> list_all plain_decimal_char s then other s bitSize
      else if int_digits s = [] \<and> frac_digits s = [] then Inl ErrSyntax
      else if trailing s \<noteq> [] then Inl ErrSyntax
      else float_of_fraction bitSize (negative s)
             (digits_value (int_digits s @ frac_digits s)) (10 ^ length (frac_digits s)))"

section \<open>Package \<open>fmt\<close>: the verb \<open>%f\<close>\<close>

text \<open>
  \<open>%f\<close> prints a \<open>float64\<close> with six digits after the point, rounded from the exact value
  to the nearest millionth (to the even one of two equally near); \<open>micro\<close> is that number
  of millionths.
\<close>

definition micro :: "int \<Rightarrow> int \<Rightarrow> int" where
  "micro m e =
     (if e \<ge> 0 then m * 2 ^ nat e * 1000000
      else round_half_even_div (m * 1000000) (2 ^ nat (- e)))"

fun Sprintf_f :: "float \<Rightarrow> string" where
  "Sprintf_f NaN = ''NaN''"
| "Sprintf_f (Infinity neg) = (if neg then ''-Inf'' else ''+Inf'')"
| "Sprintf_f (Finite neg m e) =
     (if neg then ''-'' else []) @ decimal (micro m e div 1000000) @ ''.''
     @ appendInt (micro m e mod 1000000) 6"

section \<open>Package \<open>encoding/json\<close>\<close>

text \<open>
  A JSON document as a tree. A number keeps the text of its literal (the decoder
  converts it according to the type of the Go value it is stored in), a string is the
  text it stands for (after unescaping), and an object keeps its members in order, with
  any repeated keys.
\<close>

datatype json =
    JNull
  | JBool bool
  | JNumber string
  | JString string
  | JArray "json list"
  | JObject "(string \<times> json) list"

subsection \<open>Encoding\<close>

text \<open>
  A struct is encoded as an object with one member per field that has a JSON name, in
  the order of the fields; a nil slice as \<open>null\<close>, any other slice as an array.
\<close>

fun marshal_slice :: "('a \<Rightarrow> json) \<Rightarrow> 'a slice \<Rightarrow> json" where
  "marshal_slice enc nil = JNull"
| "marshal_slice enc (Slice xs) = JArray (map enc xs)"

fun marshal_struct :: "StructField list \<Rightarrow> json list \<Rightarrow> (string \<times> json) list" where
  "marshal_struct (f # fs) (v # vs) =
     (case json_name f of
        None \<Rightarrow> marshal_struct fs vs
      | Some n \<Rightarrow> (n, v) # marshal_struct fs vs)"
| "marshal_struct fs vs = []"

definition marshal_Alert :: "OpenWeatherOneCallAlert \<Rightarrow> json" where
  "marshal_Alert a =
     JObject (marshal_struct OpenWeatherOneCallAlert_fields
       [JString (SenderName a), JString (Event a), JString (Description a)])"

definition marshal_MyWeatherResponse :: "MyWeatherResponse \<Rightarrow> json" where
  "marshal_MyWeatherResponse r =
     JObject (marshal_struct MyWeatherResponse_fields
       [JString (Timestamp r),
        JString (CurrentTemperatureFeel r),
        marshal_slice JString (CurrentConditions r),
        marshal_slice marshal_Alert (CurrentAlerts r)])"

subsection \<open>Decoding\<close>

text \<open>
  The field a key of a JSON object is stored in: the field whose JSON name is the key,
  or else the first whose name equals it without regard to the case of ASCII letters.
  (The library folds a few non-ASCII letters onto \<open>k\<close> and \<open>s\<close> as well; keys are compared
  as ASCII here.) A key that matches no field is skipped with its value.
\<close>

definition to_lower :: "char \<Rightarrow> char" where
  "to_lower c = (if is_upper c then char_of (of_char c + (32::nat)) else c)"

definition fold_key :: "string \<Rightarrow> string" where
  "fold_key key = map to_lower key"

definition has_name :: "string \<Rightarrow> StructField \<Rightarrow> bool" where
  "has_name key f = (json_name f = Some key)"

definition has_folded_name :: "string \<Rightarrow> StructField \<Rightarrow> bool" where
  "has_folded_name key f =
     (case json_name f of None \<Rightarrow> False | Some n \<Rightarrow> fold_key n = fold_key key)"

definition find_field :: "StructField list \<Rightarrow> string \<Rightarrow> StructField option" where
  "find_field fs key =
     (case find (has_name key) fs of
        Some f \<Rightarrow> Some f
      | None \<Rightarrow> find (has_folded_name key) fs)"

text \<open>
  Storing a JSON value in a Go value of a given type; \<open>old\<close> is what the Go value held.
  \<open>null\<close> leaves a string, a number or a struct as it was and makes a slice nil. A JSON
  value of the wrong kind, or a number that does not fit the type, is an
  \<open>UnmarshalTypeError\<close>. (The library goes on decoding after such an error and reports
  the first one at the end; the caller only looks at whether there was one.)
\<close>

fun decode_string :: "json \<Rightarrow> string \<Rightarrow> error + string" where
  "decode_string (JString s) old = Inr s"
| "decode_string JNull old = Inr old"
| "decode_string j old = Inl (UnmarshalTypeError ''string'')"

fun decode_int64 :: "json \<Rightarrow> 64 word \<Rightarrow> error + 64 word" where
  "decode_int64 (JNumber lit) old =
     (case ParseInt lit of
        Inl e \<Rightarrow> Inl (UnmarshalTypeError ''int64'')
      | Inr n \<Rightarrow> Inr (word_of_int n))"
| "decode_int64 JNull old = Inr old"
| "decode_int64 j old = Inl (UnmarshalTypeError ''int64'')"

fun decode_float32 :: "(string \<Rightarrow> nat \<Rightarrow> error + float) \<Rightarrow> json \<Rightarrow> float32 \<Rightarrow> error + float32" where
  "decode_float32 other (JNumber lit) old =
     (case ParseFloat other lit 32 of
        Inl e \<Rightarrow> Inl (UnmarshalTypeError ''float32'')
      | Inr x \<Rightarrow> Inr x)"
| "decode_float32 other JNull old = Inr old"
| "decode_float32 other j old = Inl (UnmarshalTypeError ''float32'')"

text \<open>The elements of an array, each decoded into a fresh zero value, up to the first error.\<close>

fun decode_elems :: "(json \<Rightarrow> error + 'a) \<Rightarrow> json list \<Rightarrow> error + 'a list" where
  "decode_elems dec [] = Inr []"
| "decode_elems dec (j # js) =
     (case dec j of
        Inl e \<Rightarrow> Inl e
      | Inr x \<Rightarrow>
          (case decode_elems dec js of
             Inl e \<Rightarrow> Inl e
           | Inr xs \<Rightarrow> Inr (x # xs)))"

fun decode_slice :: "(json \<Rightarrow> error + 'a) \<Rightarrow> json \<Rightarrow> 'a slice \<Rightarrow> error + 'a slice" where
  "decode_slice dec (JArray js) old =
     (case decode_elems dec js of
        Inl e \<Rightarrow> Inl e
      | Inr xs \<Rightarrow> Inr (Slice xs))"
| "decode_slice dec JNull old = Inr nil"
| "decode_slice dec j old = Inl (UnmarshalTypeError ''slice'')"

text \<open>The members of an object, stored one after the other into the struct \<open>x\<close>.\<close>

fun decode_members :: "(string \<Rightarrow> json \<Rightarrow> 'a \<Rightarrow> error + 'a) \<Rightarrow> (string \<times> json) list \<Rightarrow> 'a \<Rightarrow> error + 'a" where
  "decode_members store [] x = Inr x"
| "decode_members store ((key, v) # kvs) x =
     (case store key v x of
        Inl e \<Rightarrow> Inl e
      | Inr x' \<Rightarrow> decode_members store kvs x')"

fun decode_struct :: "(string \<Rightarrow> json \<Rightarrow> 'a \<Rightarrow> error + 'a) \<Rightarrow> json \<Rightarrow> 'a \<Rightarrow> error + 'a" where
  "decode_struct store (JObject kvs) old = decode_members store kvs old"
| "decode_struct store JNull old = Inr old"
| "decode_struct store j old = Inl (UnmarshalTypeError ''struct'')"

definition store_WeatherCondition :: "string \<Rightarrow> json \<Rightarrow> WeatherCondition \<Rightarrow> error + WeatherCondition" where
  "store_WeatherCondition key v x =
     (case find_field WeatherCondition_fields key of
        None \<Rightarrow> Inr x
      | Some f \<Rightarrow>
          (case decode_string v (Main x) of
             Inl e \<Rightarrow> Inl e
           | Inr s \<Rightarrow> Inr (x\<lparr>Main := s\<rparr>)))"

definition store_Alert :: "string \<Rightarrow> json \<Rightarrow> OpenWeatherOneCallAlert \<Rightarrow> error + OpenWeatherOneCallAlert" where
  "store_Alert key v x =
     (case find_field OpenWeatherOneCallAlert_fields key of
        None \<Rightarrow> Inr x
      | Some f \<Rightarrow>
          if Name f = ''SenderName'' then
            (case decode_string v (SenderName x) of
               Inl e \<Rightarrow> Inl e
             | Inr s \<Rightarrow> Inr (x\<lparr>SenderName := s\<rparr>))
          else if Name f = ''Event'' then
            (case decode_string v (Event x) of
               Inl e \<Rightarrow> Inl e
             | Inr s \<Rightarrow> Inr (x\<lparr>Event := s\<rparr>))
          else
            (case decode_string v (Description x) of
               Inl e \<Rightarrow> Inl e
             | Inr s \<Rightarrow> Inr (x\<lparr>Description := s\<rparr>)))"

text \<open>The zero values of the structs: what a declared variable holds before decoding.\<close>

definition zero_WeatherCondition :: WeatherCondition where
  "zero_WeatherCondition = \<lparr>Main = []\<rparr>"

definition zero_Alert :: OpenWeatherOneCallAlert where
  "zero_Alert = \<lparr>SenderName = [], Event = [], Description = []\<rparr>"

definition zero_Current :: OpenWeatherOneCallCurrentConditions where
  "zero_Current = \<lparr>DT = 0, FeelsLike = Finite False 0 0, Weather = nil\<rparr>"

definition zero_Response :: OpenWeatherOneCallResponse where
  "zero_Response = \<lparr>Current = zero_Current, Alerts = nil\<rparr>"

definition store_Current ::
  "(string \<Rightarrow> nat \<Rightarrow> error + float) \<Rightarrow> string \<Rightarrow> json \<Rightarrow> OpenWeatherOneCallCurrentConditions
     \<Rightarrow> error + OpenWeatherOneCallCurrentConditions" where
  "store_Current other key v x =
     (case find_field OpenWeatherOneCallCurrentConditions_fields key of
        None \<Rightarrow> Inr x
      | Some f \<Rightarrow>
          if Name f = ''DT'' then
            (case decode_int64 v (DT x) of
               Inl e \<Rightarrow> Inl e
             | Inr n \<Rightarrow> Inr (x\<lparr>DT := n\<rparr>))
          else if Name f = ''FeelsLike'' then
            (case decode_float32 other v (FeelsLike x) of
               Inl e \<Rightarrow> Inl e
             | Inr t \<Rightarrow> Inr (x\<lparr>FeelsLike := t\<rparr>))
          else
            (case decode_slice (\<lambda>j. decode_struct store_WeatherCondition j zero_WeatherCondition)
                    v (Weather x) of
               Inl e \<Rightarrow> Inl e
             | Inr ws \<Rightarrow> Inr (x\<lparr>Weather := ws\<rparr>)))"

definition store_Response ::
  "(string \<Rightarrow> nat \<Rightarrow> error + float) \<Rightarrow> string \<Rightarrow> json \<Rightarrow> OpenWeatherOneCallResponse
     \<Rightarrow> error + OpenWeatherOneCallResponse" where
  "store_Response other key v x =
     (case find_field OpenWeatherOneCallResponse_fields key of
        None \<Rightarrow> Inr x
      | Some f \<Rightarrow>
          if Name f = ''Current'' then
            (case decode_struct (store_Current other) v (Current x) of
               Inl e \<Rightarrow> Inl e
             | Inr c \<Rightarrow> Inr (x\<lparr>Current := c\<rparr>))
          else
            (case decode_slice (\<lambda>j. decode_struct store_Alert j zero_Alert) v (Alerts x) of
               Inl e \<Rightarrow> Inl e
             | Inr as \<Rightarrow> Inr (x\<lparr>Alerts := as\<rparr>)))"

definition decode_Response ::
  "(string \<Rightarrow> nat \<Rightarrow> error + float) \<Rightarrow> json \<Rightarrow> OpenWeatherOneCallResponse
     \<Rightarrow> error + OpenWeatherOneCallResponse" where
  "decode_Response other j old = decode_struct (store_Response other) j old"

section \<open>Route patterns\<close>

text \<open>
  The router compiles the pattern of a path parameter as a regular expression and
  anchors it at both ends: the whole path segment has to match. The expressions of this
  program use character classes, sequences, \<open>?\<close> and \<open>+\<close>; they are matched here by
  derivatives.
\<close>

datatype rexp =
    Zero
  | One
  | Class "char list"
  | Range char char
  | Alt rexp rexp
  | Seq rexp rexp
  | Star rexp

definition Opt :: "rexp \<Rightarrow> rexp" where
  "Opt r = Alt r One"

definition Plus :: "rexp \<Rightarrow> rexp" where
  "Plus r = Seq r (Star r)"

fun nullable :: "rexp \<Rightarrow> bool" where
  "nullable Zero = False"
| "nullable One = True"
| "nullable (Class cs) = False"
| "nullable (Range a b) = False"
| "nullable (Alt r s) = (nullable r \<or> nullable s)"
| "nullable (Seq r s) = (nullable r \<and> nullable s)"
| "nullable (Star r) = True"

definition in_range :: "char \<Rightarrow> char \<Rightarrow> char \<Rightarrow> bool" where
  "in_range a b c = ((of_char a :: nat) \<le> of_char c \<and> (of_char c :: nat) \<le> of_char b)"

fun alt :: "rexp \<Rightarrow> rexp \<Rightarrow> rexp" where
  "alt Zero s = s"
| "alt r Zero = r"
| "alt r s = Alt r s"

fun seq :: "rexp \<Rightarrow> rexp \<Rightarrow> rexp" where
  "seq Zero s = Zero"
| "seq r Zero = Zero"
| "seq One s = s"
| "seq r s = Seq r s"

fun deriv :: "char \<Rightarrow> rexp \<Rightarrow> rexp" where
  "deriv c Zero = Zero"
| "deriv c One = Zero"
| "deriv c (Class cs) = (if c \<in> set cs then One else Zero)"
| "deriv c (Range a b) = (if in_range a b c then One else Zero)"
| "deriv c (Alt r s) = alt (deriv c r) (deriv c s)"
| "deriv c (Seq r s) =
     (if nullable r then alt (seq (deriv c r) s) (deriv c s) else seq (deriv c r) s)"
| "deriv c (Star r) = seq (deriv c r) (Star r)"

fun MatchString :: "rexp \<Rightarrow> string \<Rightarrow> bool" where
  "MatchString r [] = nullable r"
| "MatchString r (c # cs) = MatchString (deriv c r) cs"

text \<open>The language of an expression, by which the matcher is justified below.\<close>

definition conc :: "string set \<Rightarrow> string set \<Rightarrow> string set" where
  "conc A B = {xs @ ys | xs ys. xs \<in> A \<and> ys \<in> B}"

inductive_set star :: "string set \<Rightarrow> string set" for A :: "string set" where
  star_Nil: "[] \<in> star A"
| star_app: "xs \<in> A \<Longrightarrow> ys \<in> star A \<Longrightarrow> xs @ ys \<in> star A"

fun lang :: "rexp \<Rightarrow> string set" where
  "lang Zero = {}"
| "lang One = {[]}"
| "lang (Class cs) = {[c] | c. c \<in> set cs}"
| "lang (Range a b) = {[c] | c. in_range a b c}"
| "lang (Alt r s) = lang r \<union> lang s"
| "lang (Seq r s) = conc (lang r) (lang s)"
| "lang (Star r) = star (lang r)"

text \<open>
  \<open>[-+]?[0-9]+(?:\.[0-9]+)?\<close>, the pattern of \<open>lat\<close> and \<open>lon\<close> in the weather route, and
  \<open>[-+]?[0-9]+\<close>, their pattern in the route \<open>/test2\<close>.
\<close>

definition decimal_pattern :: rexp where
  "decimal_pattern =
     Seq (Opt (Class ''-+''))
       (Seq (Plus (Range (CHR ''0'') (CHR ''9'')))
          (Opt (Seq (Class ''.'') (Plus (Range (CHR ''0'') (CHR ''9''))))))"

definition integer_pattern :: rexp where
  "integer_pattern = Seq (Opt (Class ''-+'')) (Plus (Range (CHR ''0'') (CHR ''9'')))"

section \<open>The HTTP service\<close>

subsection \<open>Requests, responses and the surroundings of the process\<close>

text \<open>
  A value held in a request context has the type \<open>interface{}\<close>; this program stores
  \<open>float64\<close> values only, and a key that was never set yields \<open>nil\<close>. All keys have the
  type \<open>URLParamKey\<close>, a string. \<open>WithValue\<close> puts a pair in front of the context and
  \<open>Value\<close> finds the first pair with the key.
\<close>

datatype any = AnyNil | AnyFloat64 float64

type_synonym Context = "(string \<times> any) list"

definition WithValue :: "Context \<Rightarrow> string \<Rightarrow> any \<Rightarrow> Context" where
  "WithValue ctx key val = (key, val) # ctx"

definition Value :: "Context \<Rightarrow> string \<Rightarrow> any" where
  "Value ctx key = (case map_of ctx key of None \<Rightarrow> AnyNil | Some v \<Rightarrow> v)"

text \<open>
  A request as the router sees it: the method, the path it routes on, the parameters
  the router has taken from the path (empty until a route is matched) and the context.
\<close>

record Request =
  Method :: string
  Path :: string
  URLParams :: "(string \<times> string) list"
  Ctx :: Context

definition URLParam :: "Request \<Rightarrow> string \<Rightarrow> string" where
  "URLParam r key = (case map_of (URLParams r) key of None \<Rightarrow> [] | Some v \<Rightarrow> v)"

text \<open>
  The response under construction: the status code, once the header is written, and
  the bytes of the body written so far. The first \<open>WriteHeader\<close> fixes the status; \<open>Write\<close>
  writes the header with status 200 first when none was written. \<open>http.Error\<close> writes the
  header with the given code and the given text followed by a newline.
\<close>

record ResponseWriter =
  status :: "nat option"
  body :: string

definition WriteHeader :: "nat \<Rightarrow> ResponseWriter \<Rightarrow> ResponseWriter" where
  "WriteHeader code w = (case status w of None \<Rightarrow> w\<lparr>status := Some code\<rparr> | Some c \<Rightarrow> w)"

definition Write :: "string \<Rightarrow> ResponseWriter \<Rightarrow> ResponseWriter" where
  "Write b w = (WriteHeader 200 w)\<lparr>body := body w @ b\<rparr>"

definition http_Error :: "ResponseWriter \<Rightarrow> string \<Rightarrow> nat \<Rightarrow> ResponseWriter" where
  "http_Error w err code = Write (err @ [CHR 0x0A]) (WriteHeader code w)"

definition StatusText :: "nat \<Rightarrow> string" where
  "StatusText code =
     (if code = 400 then ''Bad Request''
      else if code = 404 then ''Not Found''
      else if code = 405 then ''Method Not Allowed''
      else if code = 500 then ''Internal Server Error''
      else [])"

text \<open>
  What the process meets outside its own code and is therefore a parameter here: the
  time zone \<open>time.Local\<close>; \<open>strconv.ParseFloat\<close> on texts that are not plain decimal
  numbers; the answer of the network to a \<open>GET\<close> of a URL (an error, or a response with
  a status code and a body whose reading gives an error or the bytes); the syntax of
  JSON texts (the document a well-formed text denotes, \<open>None\<close> for any other text); and
  the text \<open>json.Marshal\<close> prints for a document.
\<close>

record upstream_response =
  StatusCode :: nat
  Body :: "error + string"

record platform =
  time_Local :: Location
  strconv_other :: "string \<Rightarrow> nat \<Rightarrow> error + float"
  http_Get :: "string \<Rightarrow> error + upstream_response"
  json_parse :: "string \<Rightarrow> json option"
  json_text :: "json \<Rightarrow> string"

text \<open>
  A value passed to \<open>panic\<close>: an error (from \<open>panicIfErr\<close>) or the runtime error of a
  failed type assertion. The log holds what \<open>log.Println\<close> was given.
\<close>

datatype panic = PanicError error | PanicTypeAssertion

datatype log_entry = LogPanic panic | LogContext Context

text \<open>
  The state a handler works on: the response, the URLs requested from the weather
  provider so far, and the log. A handler returns, or panics, with a state.
\<close>

record exchange =
  w :: ResponseWriter
  upstream :: "string list"
  log :: "log_entry list"

datatype outcome = Returned exchange | Panicked exchange panic

type_synonym Handler = "Request \<Rightarrow> exchange \<Rightarrow> outcome"

subsection \<open>The handlers\<close>

definition Unmarshal :: "platform \<Rightarrow> string \<Rightarrow> OpenWeatherOneCallResponse \<Rightarrow> error + OpenWeatherOneCallResponse" where
  "Unmarshal P data v =
     (case json_parse P data of
        None \<Rightarrow> Inl SyntaxError
      | Some j \<Rightarrow> decode_Response (strconv_other P) j v)"

definition Marshal :: "platform \<Rightarrow> MyWeatherResponse \<Rightarrow> string" where
  "Marshal P v = json_text P (marshal_MyWeatherResponse v)"

fun assert_float64 :: "any \<Rightarrow> panic + float64" where
  "assert_float64 (AnyFloat64 x) = Inr x"
| "assert_float64 AnyNil = Inl PanicTypeAssertion"

definition onecall_url :: "float64 \<Rightarrow> float64 \<Rightarrow> string \<Rightarrow> string" where
  "onecall_url lat lon apiKey =
     ''https://api.openweathermap.org/data/2.5/onecall?lat='' @ Sprintf_f lat
     @ ''&lon='' @ Sprintf_f lon
     @ ''&exclude=minutely,hourly,daily&cnt=0&appid='' @ apiKey"

definition MyWeatherResponse_of :: "platform \<Rightarrow> OpenWeatherOneCallResponse \<Rightarrow> MyWeatherResponse" where
  "MyWeatherResponse_of P respParsed =
     \<lparr>Timestamp = Format_RFC3339 (Unix (time_Local P) (DT (Current respParsed))),
      CurrentTemperatureFeel = GetCurrentTemperatureFeel respParsed,
      CurrentConditions = GetCurrentConditions respParsed,
      CurrentAlerts = GetCurrentAlerts respParsed\<rparr>"

text \<open>
  The body of the handler of \<open>/weather\<close>, up to its deferred function. The two type
  assertions are evaluated before the request is sent.
\<close>

definition weather_body :: "platform \<Rightarrow> string \<Rightarrow> Handler" where
  "weather_body P apiKey r x =
     (case assert_float64 (Value (Ctx r) ''lat'') of
        Inl p \<Rightarrow> Panicked x p
      | Inr lat \<Rightarrow>
     (case assert_float64 (Value (Ctx r) ''lon'') of
        Inl p \<Rightarrow> Panicked x p
      | Inr lon \<Rightarrow>
     (case http_Get P (onecall_url lat lon apiKey) of
        Inl err \<Rightarrow>
          Panicked (x\<lparr>upstream := upstream x @ [onecall_url lat lon apiKey]\<rparr>) (PanicError err)
      | Inr resp \<Rightarrow>
     (case Body resp of
        Inl err \<Rightarrow>
          Panicked (x\<lparr>upstream := upstream x @ [onecall_url lat lon apiKey]\<rparr>) (PanicError err)
      | Inr respBody \<Rightarrow>
     (case Unmarshal P respBody zero_Response of
        Inl err \<Rightarrow>
          Panicked (x\<lparr>upstream := upstream x @ [onecall_url lat lon apiKey]\<rparr>) (PanicError err)
      | Inr respParsed \<Rightarrow>
          Returned (x\<lparr>upstream := upstream x @ [onecall_url lat lon apiKey],
                      w := Write (Marshal P (MyWeatherResponse_of P respParsed)) (w x)\<rparr>))))))"

text \<open>
  The deferred function of every route handler: a panic is logged and answered with
  status 500 and its status text; the handler then returns normally.
\<close>

fun recover_500 :: "outcome \<Rightarrow> outcome" where
  "recover_500 (Returned x) = Returned x"
| "recover_500 (Panicked x p) =
     Returned (x\<lparr>log := log x @ [LogPanic p], w := http_Error (w x) (StatusText 500) 500\<rparr>)"

definition weather_handler :: "platform \<Rightarrow> string \<Rightarrow> Handler" where
  "weather_handler P apiKey r x = recover_500 (weather_body P apiKey r x)"

definition hello_handler :: "string \<Rightarrow> Handler" where
  "hello_handler greeting r x = recover_500 (Returned (x\<lparr>w := Write greeting (w x)\<rparr>))"

text \<open>
  \<open>latLonContext\<close>: the middleware parses the two route parameters, stores them in the
  context, logs the context and calls the next handler. Its deferred function answers
  any panic, of its own or of the next handler, with status 400 and its status text.
\<close>

fun recover_400 :: "outcome \<Rightarrow> outcome" where
  "recover_400 (Returned x) = Returned x"
| "recover_400 (Panicked x p) = Returned (x\<lparr>w := http_Error (w x) (StatusText 400) 400\<rparr>)"

definition latLonContext_body :: "platform \<Rightarrow> Handler \<Rightarrow> Handler" where
  "latLonContext_body P next r x =
     (case ParseFloat (strconv_other P) (URLParam r ''lat'') 64 of
        Inl err \<Rightarrow> Panicked x (PanicError err)
      | Inr lat \<Rightarrow>
     (case ParseFloat (strconv_other P) (URLParam r ''lon'') 64 of
        Inl err \<Rightarrow> Panicked x (PanicError err)
      | Inr lon \<Rightarrow>
          next
            (r\<lparr>Ctx := WithValue (WithValue (Ctx r) ''lat'' (AnyFloat64 lat)) ''lon'' (AnyFloat64 lon)\<rparr>)
            (x\<lparr>log := log x @
                [LogContext (WithValue (WithValue (Ctx r) ''lat'' (AnyFloat64 lat)) ''lon'' (AnyFloat64 lon))]\<rparr>)))"

definition latLonContext :: "platform \<Rightarrow> Handler \<Rightarrow> Handler" where
  "latLonContext P next r x = recover_400 (latLonContext_body P next r x)"

subsection \<open>The router\<close>

text \<open>
  The routes registered in \<open>main\<close>. A path is cut at its slashes; a parameter stands for
  one whole non-empty segment that matches its pattern. A path that fits no route is
  answered by the router with \<open>404 page not found\<close>, and a method other than \<open>GET\<close> on a
  path that fits one with status 405 and no body. (The request logger that \<open>main\<close>
  installs writes to the standard output and changes neither request nor response; it
  is left out.)
\<close>

fun split_slash :: "string \<Rightarrow> string list" where
  "split_slash [] = [[]]"
| "split_slash (c # cs) =
     (if c = CHR ''/'' then [] # split_slash cs
      else (case split_slash cs of [] \<Rightarrow> [[c]] | s # ss \<Rightarrow> (c # s) # ss))"

datatype route =
    Route_hello
  | Route_helloCtx
  | Route_test
  | Route_test2 string string
  | Route_weather string string

definition find_route :: "string \<Rightarrow> route option" where
  "find_route path =
     (if split_slash path = [[], ''hello''] then Some Route_hello
      else if split_slash path = [[], ''helloCtx''] then Some Route_helloCtx
      else if split_slash path = [[], ''test'', ''lat'', ''-40'', ''lon'', ''40''] then Some Route_test
      else if length (split_slash path) = 6
            \<and> take 3 (split_slash path) = [[], ''test2'', ''lat'']
            \<and> split_slash path ! 4 = ''lon''
            \<and> MatchString integer_pattern (split_slash path ! 3)
            \<and> MatchString integer_pattern (split_slash path ! 5)
        then Some (Route_test2 (split_slash path ! 3) (split_slash path ! 5))
      else if length (split_slash path) = 6
            \<and> take 3 (split_slash path) = [[], ''weather'', ''lat'']
            \<and> split_slash path ! 4 = ''lon''
            \<and> MatchString decimal_pattern (split_slash path ! 3)
            \<and> MatchString decimal_pattern (split_slash path ! 5)
        then Some (Route_weather (split_slash path ! 3) (split_slash path ! 5))
      else None)"

fun route_handler :: "platform \<Rightarrow> string \<Rightarrow> route \<Rightarrow> Handler" where
  "route_handler P apiKey Route_hello r = hello_handler ''hello 1!'' r"
| "route_handler P apiKey Route_helloCtx r = latLonContext P (hello_handler ''hello 2!'') r"
| "route_handler P apiKey Route_test r = latLonContext P (hello_handler ''hello 3!'') r"
| "route_handler P apiKey (Route_test2 lat lon) r =
     latLonContext P (hello_handler ''hello 3!'') (r\<lparr>URLParams := [(''lat'', lat), (''lon'', lon)]\<rparr>)"
| "route_handler P apiKey (Route_weather lat lon) r =
     latLonContext P (weather_handler P apiKey) (r\<lparr>URLParams := [(''lat'', lat), (''lon'', lon)]\<rparr>)"

definition ServeHTTP :: "platform \<Rightarrow> string \<Rightarrow> Handler" where
  "ServeHTTP P apiKey r x =
     (case find_route (Path r) of
        None \<Rightarrow> Returned (x\<lparr>w := http_Error (w x) ''404 page not found'' 404\<rparr>)
      | Some rt \<Rightarrow>
          if Method r \<noteq> ''GET'' then Returned (x\<lparr>w := Write [] (WriteHeader 405 (w x))\<rparr>)
          else route_handler P apiKey rt r x)"

text \<open>A request as it arrives, and the state before anything is written.\<close>

definition new_request :: "string \<Rightarrow> string \<Rightarrow> Request" where
  "new_request m p = \<lparr>Method = m, Path = p, URLParams = [], Ctx = []\<rparr>"

definition start :: exchange where
  "start = \<lparr>w = \<lparr>status = None, body = []\<rparr>, upstream = [], log = []\<rparr>"

text \<open>The state a handler leaves, whether it returned or panicked.\<close>

fun final :: "outcome \<Rightarrow> exchange" where
  "final (Returned x) = x"
| "final (Panicked x p) = x"

subsection \<open>Startup\<close>

text \<open>
  \<open>main\<close> reads the API key from the environment (\<open>os.Getenv\<close> gives the empty string for
  a variable that is not set). Without a key it writes a line to the standard error and
  exits with status 1; with one it registers the routes and serves on port 8080.
\<close>

definition Getenv :: "(string \<rightharpoonup> string) \<Rightarrow> string \<Rightarrow> string" where
  "Getenv env key = (case env key of None \<Rightarrow> [] | Some v \<Rightarrow> v)"

datatype process =
    Exited nat string
  | ListenAndServe string string

definition main :: "(string \<rightharpoonup> string) \<Rightarrow> process" where
  "main env =
     (if Getenv env ''OPENWEATHERMAP_API_KEY'' = []
      then Exited 1 (''Missing required environment variable OPENWEATHERMAP_API_KEY'' @ [CHR 0x0A])
      else ListenAndServe '':8080'' (Getenv env ''OPENWEATHERMAP_API_KEY''))"

text \<open>
  The answer of the process to a request: none when it has exited, that of the router
  with the key it read when it serves.
\<close>

fun serve :: "platform \<Rightarrow> process \<Rightarrow> Request \<Rightarrow> outcome option" where
  "serve P (Exited code err) r = None"
| "serve P (ListenAndServe addr apiKey) r = Some (ServeHTTP P apiKey r start)"

subsection \<open>Sample inputs\<close>

text \<open>A snapshot with a given feels-like temperature and nothing else.\<close>

definition snapshot :: "float32 \<Rightarrow> OpenWeatherOneCallResponse" where
  "snapshot t = \<lparr>Current = \<lparr>DT = 0, FeelsLike = t, Weather = nil\<rparr>, Alerts = nil\<rparr>"

text \<open>
  The compact text of a document, as \<open>json.Marshal\<close> prints it when no string of the
  document needs escaping; it serves as the printer of the sample platforms.
\<close>

fun join_commas :: "string list \<Rightarrow> string" where
  "join_commas [] = []"
| "join_commas [s] = s"
| "join_commas (s # t # ts) = s @ '','' @ join_commas (t # ts)"

definition quoted :: "string \<Rightarrow> string" where
  "quoted s = [CHR 0x22] @ s @ [CHR 0x22]"

fun compact :: "json \<Rightarrow> string" where
  "compact JNull = ''null''"
| "compact (JBool b) = (if b then ''true'' else ''false'')"
| "compact (JNumber lit) = lit"
| "compact (JString s) = quoted s"
| "compact (JArray js) = ''['' @ join_commas (map compact js) @ '']''"
| "compact (JObject kvs) =
     ''{'' @ join_commas (map (\<lambda>kv. quoted (fst kv) @ '':'' @ compact (snd kv)) kvs) @ ''}''"

text \<open>
  A platform in the time zone \<open>L\<close> whose network gives the same \<open>answer\<close> to every
  request and whose JSON syntax reads every body as \<open>doc\<close>.
\<close>

definition sample_platform :: "Location \<Rightarrow> error + upstream_response \<Rightarrow> json option \<Rightarrow> platform" where
  "sample_platform L answer doc =
     \<lparr>time_Local = L,
      strconv_other = (\<lambda>s bitSize. Inl ErrSyntax),
      http_Get = (\<lambda>url. answer),
      json_parse = (\<lambda>data. doc),
      json_text = compact\<rparr>"

text \<open>The upstream document of the end-to-end example of the specification.\<close>

definition example_document :: json where
  "example_document =
     JObject
       [(''current'',
         JObject
           [(''dt'', JNumber ''1684000000''),
            (''feels_like'', JNumber ''300.0''),
            (''weather'', JArray [JObject [(''main'', JString ''Clear'')]])]),
        (''alerts'', JArray [])]"

definition example_platform :: platform where
  "example_platform =
     sample_platform UTC (Inr \<lparr>StatusCode = 200, Body = Inr ''(body)''\<rparr>) (Some example_document)"

(*DEFS*)

section \<open>The transformations\<close>

lemma GetCurrentConditions_loop_Slice:
  "GetCurrentConditions_loop (Slice acc) ws = Slice (acc @ map Main ws)"
  by (induction ws arbitrary: acc) simp_all

text \<open>
  Claim C1. \<open>GetCurrentTemperatureFeel\<close> sorts every feels-like temperature into one of
  three buckets: a value below 277 is \<open>cold\<close>, a value from 277 to 297, both bounds
  included, is \<open>moderate\<close>, and a value above 297 is \<open>hot\<close>. The infinities fall on their
  sides, and the result is always one of the three words.
\<close>

theorem GetCurrentTemperatureFeel_buckets:
  "(float_value (FeelsLike (Current r)) = Some v \<longrightarrow>
      (v < 277 \<longrightarrow> GetCurrentTemperatureFeel r = ''cold'') \<and>
      (277 \<le> v \<and> v \<le> 297 \<longrightarrow> GetCurrentTemperatureFeel r = ''moderate'') \<and>
      (297 < v \<longrightarrow> GetCurrentTemperatureFeel r = ''hot''))
   \<and> (FeelsLike (Current r) = Infinity True \<longrightarrow> GetCurrentTemperatureFeel r = ''cold'')
   \<and> (FeelsLike (Current r) = Infinity False \<longrightarrow> GetCurrentTemperatureFeel r = ''hot'')
   \<and> GetCurrentTemperatureFeel r \<in> {''cold'', ''moderate'', ''hot''}"
proof -
  have fv: "finite_value False 277 0 = 277" "finite_value False 297 0 = 297"
    by (simp_all add: finite_value_def pow2_def)
  show ?thesis
    by (cases "FeelsLike (Current r)") (auto simp: GetCurrentTemperatureFeel_def fv)
qed

theorem GetCurrentTemperatureFeel_buckets_witness:
  "GetCurrentTemperatureFeel (snapshot (Finite False 553 (- 1))) = ''cold''
   \<and> GetCurrentTemperatureFeel (snapshot (Finite False 277 0)) = ''moderate''
   \<and> GetCurrentTemperatureFeel (snapshot (Finite False 297 0)) = ''moderate''
   \<and> GetCurrentTemperatureFeel (snapshot (Finite False 595 (- 1))) = ''hot''
   \<and> GetCurrentTemperatureFeel (snapshot (Infinity True)) = ''cold''
   \<and> GetCurrentTemperatureFeel (snapshot (Infinity False)) = ''hot''"
proof -
  have v: "finite_value False 553 (- 1) = 553 / 2" "finite_value False 277 0 = 277"
    "finite_value False 297 0 = 297" "finite_value False 595 (- 1) = 595 / 2"
    by (simp_all add: finite_value_def pow2_def)
  show ?thesis
    using GetCurrentTemperatureFeel_buckets [of "snapshot (Finite False 553 (- 1))" "553 / 2"]
      GetCurrentTemperatureFeel_buckets [of "snapshot (Finite False 277 0)" 277]
      GetCurrentTemperatureFeel_buckets [of "snapshot (Finite False 297 0)" 297]
      GetCurrentTemperatureFeel_buckets [of "snapshot (Finite False 595 (- 1))" "595 / 2"]
      GetCurrentTemperatureFeel_buckets [of "snapshot (Infinity True)" 0]
      GetCurrentTemperatureFeel_buckets [of "snapshot (Infinity False)" 0]
    by (simp add: snapshot_def v)
qed

text \<open>
  Claim C6. \<open>GetCurrentConditions\<close> yields one string per entry of the upstream
  conditions, the \<open>Main\<close> of each entry at the position of the entry, so order and number
  are kept and no entry is left out. The result is never nil, so it is printed as a
  JSON array; for an empty (or nil) upstream sequence it is the empty, non-nil slice.
\<close>

theorem GetCurrentConditions_positional:
  "GetCurrentConditions r = Slice (map Main (elems (Weather (Current r))))
   \<and> len (GetCurrentConditions r) = len (Weather (Current r))
   \<and> GetCurrentConditions r \<noteq> nil
   \<and> marshal_slice JString (GetCurrentConditions r)
       = JArray (map (\<lambda>c. JString (Main c)) (elems (Weather (Current r))))
   \<and> GetCurrentConditions (r\<lparr>Current := (Current r)\<lparr>Weather := Slice []\<rparr>\<rparr>) = Slice []
   \<and> GetCurrentConditions (r\<lparr>Current := (Current r)\<lparr>Weather := nil\<rparr>\<rparr>) = Slice []"
  by (simp add: GetCurrentConditions_def make_slice_def GetCurrentConditions_loop_Slice
      len_def comp_def)

text \<open>
  Claim C7. \<open>GetCurrentAlerts\<close> yields the upstream alerts themselves, each triple
  unchanged at its position; for an empty (or nil) upstream sequence it is the empty,
  non-nil slice.
\<close>

theorem GetCurrentAlerts_positional:
  "GetCurrentAlerts r = Slice (elems (Alerts r))
   \<and> len (GetCurrentAlerts r) = len (Alerts r)
   \<and> GetCurrentAlerts r \<noteq> nil
   \<and> GetCurrentAlerts (r\<lparr>Alerts := Slice []\<rparr>) = Slice []
   \<and> GetCurrentAlerts (r\<lparr>Alerts := nil\<rparr>) = Slice []"
  by (simp add: GetCurrentAlerts_def make_slice_def len_def)

section \<open>Startup\<close>

text \<open>
  Claim C9. When the environment does not hold the API key, \<open>main\<close> writes its
  diagnostic to the standard error and exits with status 1; it does not get to
  \<open>ListenAndServe\<close>, so no request is ever answered.
\<close>

theorem main_without_key:
  "env ''OPENWEATHERMAP_API_KEY'' = None \<Longrightarrow>
     main env = Exited 1 (''Missing required environment variable OPENWEATHERMAP_API_KEY'' @ [CHR 0x0A])
     \<and> serve P (main env) r = None"
  by (simp add: main_def Getenv_def)

theorem main_without_key_witness:
  "(Map.empty :: string \<rightharpoonup> string) ''OPENWEATHERMAP_API_KEY'' = None
   \<and> main Map.empty = Exited 1 (''Missing required environment variable OPENWEATHERMAP_API_KEY'' @ [CHR 0x0A])
   \<and> serve example_platform (main Map.empty) (new_request ''GET'' ''/weather/lat/40.7/lon/-74.0'') = None"
  using main_without_key [of Map.empty example_platform "new_request ''GET'' ''/weather/lat/40.7/lon/-74.0''"]
  by simp

(*TAIL*)
end
